theory Spec2Isabelle
  imports Main
begin

section \<open>Strings\<close>

text \<open>
  The page works on JavaScript strings. They are modelled as \<^typ>\<open>string\<close>, each
  \<^typ>\<open>char\<close> standing for the code unit of the same number (U+0000 to U+00FF).
  In that range the white space and line terminators of ECMAScript, which both
  \<^verbatim>\<open>String.prototype.trim\<close> and the class \<^verbatim>\<open>\s\<close> of a regular expression use, are
  TAB, LF, VT, FF, CR, SP and NBSP.
\<close>

definition isWhiteSpace :: "char \<Rightarrow> bool" where
  "isWhiteSpace c \<longleftrightarrow>
     c \<in> set [CHR 0x09, CHR 0x0A, CHR 0x0B, CHR 0x0C, CHR 0x0D, CHR 0x20, CHR 0xA0]"

definition trim :: "string \<Rightarrow> string" where
  "trim s = rev (dropWhile isWhiteSpace (rev (dropWhile isWhiteSpace s)))"

text \<open>
  \<^verbatim>\<open>String.prototype.toLowerCase\<close> on the same range: A to Z, and the accented capitals
  U+00C0 to U+00DE without the multiplication sign U+00D7, move up by 0x20.
\<close>

definition toLowerCaseChar :: "char \<Rightarrow> char" where
  "toLowerCaseChar c =
     (let n = (of_char c :: nat) in
      if (0x41 \<le> n \<and> n \<le> 0x5A) \<or> (0xC0 \<le> n \<and> n \<le> 0xDE \<and> n \<noteq> 0xD7)
      then char_of (n + 0x20) else c)"

definition toLowerCase :: "string \<Rightarrow> string" where
  "toLowerCase s = map toLowerCaseChar s"

section \<open>Regular expressions\<close>

text \<open>
  The two handlers test an address against the literal
  \<^verbatim>\<open>/^[^\s@]+@[^\s@]+\.[^\s@]+$/\<close>. The pattern has no flags and is anchored at both
  ends, so \<^verbatim>\<open>test\<close> asks whether the whole string is in its language. The expressions
  below have the two atoms that the literal uses, and are matched by derivatives.
\<close>

datatype regex =
    Nul
  | Eps
  | Lit char
  | NotSpaceAt
  | Alt regex regex
  | Seq regex regex
  | Star regex

definition OneOrMore :: "regex \<Rightarrow> regex" where
  "OneOrMore r = Seq r (Star r)"

fun nullable :: "regex \<Rightarrow> bool" where
  "nullable Nul = False"
| "nullable Eps = True"
| "nullable (Lit c) = False"
| "nullable NotSpaceAt = False"
| "nullable (Alt r s) = (nullable r \<or> nullable s)"
| "nullable (Seq r s) = (nullable r \<and> nullable s)"
| "nullable (Star r) = True"

fun deriv :: "char \<Rightarrow> regex \<Rightarrow> regex" where
  "deriv x Nul = Nul"
| "deriv x Eps = Nul"
| "deriv x (Lit c) = (if x = c then Eps else Nul)"
| "deriv x NotSpaceAt = (if \<not> isWhiteSpace x \<and> x \<noteq> CHR ''@'' then Eps else Nul)"
| "deriv x (Alt r s) = Alt (deriv x r) (deriv x s)"
| "deriv x (Seq r s) =
     (if nullable r then Alt (Seq (deriv x r) s) (deriv x s) else Seq (deriv x r) s)"
| "deriv x (Star r) = Seq (deriv x r) (Star r)"

fun regex_test :: "regex \<Rightarrow> string \<Rightarrow> bool" where
  "regex_test r [] = nullable r"
| "regex_test r (x # xs) = regex_test (deriv x r) xs"

definition emailRegex :: regex where
  "emailRegex =
     Seq (OneOrMore NotSpaceAt)
      (Seq (Lit (CHR ''@''))
        (Seq (OneOrMore NotSpaceAt)
          (Seq (Lit (CHR ''.''))
            (OneOrMore NotSpaceAt))))"

section \<open>The state of the page\<close>

record FormData =
  name :: string
  abn :: string
  officeAddress :: string
  email :: string
  phoneNumber :: string
  accountNumber :: string

text \<open>\<^verbatim>\<open>isPrimary?: boolean\<close> may be absent: \<^term>\<open>None\<close> is \<^verbatim>\<open>undefined\<close>.\<close>

record ContactDetails =
  name :: string
  email :: string
  phoneNumber :: string
  isPrimary :: "bool option"

text \<open>What \<^verbatim>\<open>handleSubmit\<close> hands to the mutation: \<^verbatim>\<open>{ ...formData, contacts: contacts }\<close>.\<close>

record Buyer = FormData +
  contacts :: "ContactDetails list"

record page =
  formData :: FormData
  contacts :: "ContactDetails list"
  currentContact :: ContactDetails

datatype toast = ToastError string | ToastSuccess string

definition emptyContact :: ContactDetails where
  "emptyContact = \<lparr>name = [], email = [], phoneNumber = [], isPrimary = Some False\<rparr>"

definition initialPage :: page where
  "initialPage =
     \<lparr>formData = \<lparr>FormData.name = [], abn = [], officeAddress = [], FormData.email = [],
                   FormData.phoneNumber = [], accountNumber = []\<rparr>,
      contacts = [],
      currentContact = emptyContact\<rparr>"

section \<open>Contact handlers\<close>

text \<open>
  A handler reads the state of the component and returns the state after the updates it
  queues, with the toast it shows when it shows one. A handler that returns early has
  queued no update: the page comes back as it was.
\<close>

definition addContact :: "page \<Rightarrow> toast \<times> page" where
  "addContact p =
     (let cur = currentContact p; cs = contacts p in
      if trim (name cur) = [] then (ToastError ''Contact name is required'', p)
      else if trim (email cur) = [] then (ToastError ''Contact email is required'', p)
      else if trim (phoneNumber cur) = [] then
        (ToastError ''Contact phone number is required'', p)
      else if \<not> regex_test emailRegex (email cur) then
        (ToastError ''Please enter a valid email address'', p)
      else if list_ex (\<lambda>c. name c = trim (name cur)) cs then
        (ToastError ''Contact name already exists'', p)
      else if list_ex (\<lambda>c. toLowerCase (trim (email c)) = toLowerCase (trim (email cur))) cs
      then (ToastError ''Contact email already exists'', p)
      else
        let newContact =
              \<lparr>name = trim (name cur), email = trim (email cur),
               phoneNumber = trim (phoneNumber cur),
               isPrimary = Some (isPrimary cur = Some True)\<rparr>;
            updatedContacts =
              (if isPrimary newContact = Some True
               then map (\<lambda>c. c\<lparr>isPrimary := Some False\<rparr>) cs else cs);
            newContact = (if cs = [] then newContact\<lparr>isPrimary := Some True\<rparr> else newContact)
        in (ToastSuccess ''Contact added successfully'',
            p\<lparr>contacts := newContact # updatedContacts, currentContact := emptyContact\<rparr>))"

text \<open>
  \<^verbatim>\<open>updatedContacts[0].isPrimary = true\<close> is guarded by \<^verbatim>\<open>updatedContacts.length > 0\<close>,
  so the assignment is a case on the filtered list.
\<close>

definition removeContact :: "string \<Rightarrow> page \<Rightarrow> page" where
  "removeContact nameToRemove p =
     (let updatedContacts = filter (\<lambda>c. name c \<noteq> nameToRemove) (contacts p);
          removedContact = find (\<lambda>c. name c = nameToRemove) (contacts p);
          removedPrimary =
            (case removedContact of None \<Rightarrow> False | Some r \<Rightarrow> isPrimary r = Some True)
      in p\<lparr>contacts :=
             (case updatedContacts of
                [] \<Rightarrow> []
              | c # rest \<Rightarrow> if removedPrimary then c\<lparr>isPrimary := Some True\<rparr> # rest
                           else c # rest)\<rparr>)"

definition setPrimaryContact :: "string \<Rightarrow> page \<Rightarrow> toast \<times> page" where
  "setPrimaryContact contactName p =
     (ToastSuccess ''Primary contact updated'',
      p\<lparr>contacts := map (\<lambda>c. c\<lparr>isPrimary := Some (name c = contactName)\<rparr>) (contacts p)\<rparr>)"

text \<open>
  \<^verbatim>\<open>handleSubmit\<close> either shows an error toast and returns, or calls
  \<^verbatim>\<open>createBuyerMutation.mutate\<close> on the buyer it has built: \<^term>\<open>Inr\<close> carries that
  argument.
\<close>

definition handleSubmit :: "page \<Rightarrow> toast + Buyer" where
  "handleSubmit p =
     (let fd = formData p in
      if contacts p = [] then Inl (ToastError ''Please add at least one contact'')
      else if FormData.name fd = [] \<or> abn fd = [] \<or> officeAddress fd = []
              \<or> FormData.email fd = [] \<or> FormData.phoneNumber fd = []
      then Inl (ToastError ''Please fill in all required fields'')
      else if \<not> regex_test emailRegex (FormData.email fd) then
        Inl (ToastError ''Please enter a valid email address'')
      else Inr (FormData.extend fd (Buyer.fields (contacts p))))"

section \<open>Sequences of calls\<close>

text \<open>
  The contact handlers as events. The contact form is filled in field by field before the
  button is pressed, so an \<^verbatim>\<open>addContact\<close> call meets any candidate in
  \<^verbatim>\<open>currentContact\<close>.
\<close>

datatype event =
    AddContact ContactDetails
  | RemoveContact string
  | SetPrimaryContact string

fun step :: "page \<Rightarrow> event \<Rightarrow> page" where
  "step p (AddContact c) = snd (addContact (p\<lparr>currentContact := c\<rparr>))"
| "step p (RemoveContact n) = removeContact n p"
| "step p (SetPrimaryContact n) = snd (setPrimaryContact n p)"

fun run :: "page \<Rightarrow> event list \<Rightarrow> page" where
  "run p [] = p"
| "run p (e # es) = run (step p e) es"

text \<open>
  The page offers \<^verbatim>\<open>Set as Primary\<close> on the rows of the list only, so there the name
  passed is the name of an entry.
\<close>

fun enabled :: "page \<Rightarrow> event \<Rightarrow> bool" where
  "enabled p (SetPrimaryContact n) = list_ex (\<lambda>c. name c = n) (contacts p)"
| "enabled p (AddContact c) = True"
| "enabled p (RemoveContact n) = True"

fun admissible :: "page \<Rightarrow> event list \<Rightarrow> bool" where
  "admissible p [] = True"
| "admissible p (e # es) = (enabled p e \<and> admissible (step p e) es)"

definition primaryCount :: "ContactDetails list \<Rightarrow> nat" where
  "primaryCount cs = length (filter (\<lambda>c. isPrimary c = Some True) cs)"

definition singlePrimary :: "ContactDetails list \<Rightarrow> bool" where
  "singlePrimary cs \<longleftrightarrow> primaryCount cs = (if cs = [] then 0 else 1)"

text \<open>What the handlers keep up between them: names are unique and one entry is primary.\<close>

definition wellFormed :: "ContactDetails list \<Rightarrow> bool" where
  "wellFormed cs \<longleftrightarrow> distinct (map name cs) \<and> singlePrimary cs"

text \<open>The three emptiness checks that open \<^verbatim>\<open>addContact\<close>, passed.\<close>

definition requiredFieldsPresent :: "ContactDetails \<Rightarrow> bool" where
  "requiredFieldsPresent c \<longleftrightarrow>
     trim (name c) \<noteq> [] \<and> trim (email c) \<noteq> [] \<and> trim (phoneNumber c) \<noteq> []"

text \<open>The entry that \<^verbatim>\<open>addContact\<close> builds from the candidate, with the flag it ends up with.\<close>

definition normalized :: "ContactDetails \<Rightarrow> bool \<Rightarrow> ContactDetails" where
  "normalized c primary =
     \<lparr>name = trim (name c), email = trim (email c), phoneNumber = trim (phoneNumber c),
      isPrimary = Some primary\<rparr>"

text \<open>
  Two syntactic properties of an expression, for reasoning about the pattern: it matches
  nothing at all, and none of its atoms accepts white space.
\<close>

fun dead :: "regex \<Rightarrow> bool" where
  "dead Nul = True"
| "dead Eps = False"
| "dead (Lit c) = False"
| "dead NotSpaceAt = False"
| "dead (Alt r s) = (dead r \<and> dead s)"
| "dead (Seq r s) = (dead r \<or> dead s)"
| "dead (Star r) = False"

fun spaceless :: "regex \<Rightarrow> bool" where
  "spaceless Nul = True"
| "spaceless Eps = True"
| "spaceless (Lit c) = (\<not> isWhiteSpace c)"
| "spaceless NotSpaceAt = True"
| "spaceless (Alt r s) = (spaceless r \<and> spaceless s)"
| "spaceless (Seq r s) = (spaceless r \<and> spaceless s)"
| "spaceless (Star r) = spaceless r"

section \<open>Sample data\<close>

definition alice :: ContactDetails where
  "alice = \<lparr>name = ''Alice'', email = ''a@x.com'', phoneNumber = ''111'', isPrimary = Some False\<rparr>"

definition bob :: ContactDetails where
  "bob = \<lparr>name = ''Bob'', email = ''b@x.com'', phoneNumber = ''222'', isPrimary = Some True\<rparr>"

definition carol :: ContactDetails where
  "carol = \<lparr>name = '' Carol'', email = ''carol@x.org'', phoneNumber = ''333 '', isPrimary = Some True\<rparr>"

definition padded :: ContactDetails where
  "padded = \<lparr>name = ''Dave'', email = '' d@x.com '', phoneNumber = ''444'', isPrimary = Some False\<rparr>"

text \<open>
  An address pasted with a trailing no-break space (U+00A0), which is white space for
  \<^verbatim>\<open>trim\<close> and for \<^verbatim>\<open>\s\<close> and which an \<^verbatim>\<open>email\<close> input leaves in its value.
\<close>

definition pasted :: ContactDetails where
  "pasted = \<lparr>name = ''Gina'', email = ''g@x.com'' @ [CHR 0xA0], phoneNumber = ''888'',
             isPrimary = Some False\<rparr>"

definition badEmail :: ContactDetails where
  "badEmail = \<lparr>name = ''Erin'', email = ''bad-email'', phoneNumber = ''555'', isPrimary = Some False\<rparr>"

definition aliceAgain :: ContactDetails where
  "aliceAgain = \<lparr>name = ''Alice'', email = ''A@X.COM'', phoneNumber = ''666'', isPrimary = Some False\<rparr>"

definition frank :: ContactDetails where
  "frank = \<lparr>name = ''Frank'', email = ''A@X.COM'', phoneNumber = ''777'', isPrimary = Some False\<rparr>"

definition acme :: FormData where
  "acme = \<lparr>FormData.name = ''Acme Pty Ltd'', abn = ''51824753556'',
           officeAddress = ''1 Main St'', FormData.email = ''office@acme.com'',
           FormData.phoneNumber = ''0400000000'', accountNumber = []\<rparr>"

text \<open>The list of the specification's examples: Bob, primary, in front of Alice.\<close>

definition bobAlice :: page where
  "bobAlice = \<lparr>formData = acme, contacts = [bob, alice], currentContact = emptyContact\<rparr>"

section \<open>The single-primary invariant\<close>

lemma primaryCount_Nil [simp]: "primaryCount [] = 0"
  by (simp add: primaryCount_def)

lemma primaryCount_Cons [simp]:
  "primaryCount (c # cs) = (if isPrimary c = Some True then 1 else 0) + primaryCount cs"
  by (simp add: primaryCount_def)

lemma primaryCount_clear [simp]:
  "primaryCount (map (\<lambda>c. c\<lparr>isPrimary := Some False\<rparr>) cs) = 0"
  by (induction cs) simp_all

lemma names_keep [simp]: "map name (map (\<lambda>c. c\<lparr>isPrimary := f c\<rparr>) cs) = map name cs"
  by (induction cs) simp_all

lemma name_o_update [simp]: "ContactDetails.name \<circ> isPrimary_update g = ContactDetails.name"
  by (rule ext) simp

lemma name_o_update_fun [simp]:
  "ContactDetails.name \<circ> (\<lambda>c. c\<lparr>isPrimary := f c\<rparr>) = ContactDetails.name"
  by (rule ext) simp

lemma list_ex_name: "list_ex (\<lambda>c. name c = n) cs \<longleftrightarrow> n \<in> set (map name cs)"
  by (induction cs) auto

lemma addContact_wellFormed:
  assumes "wellFormed (contacts p)"
  shows "wellFormed (contacts (snd (addContact p)))"
  using assms
  by (auto simp: addContact_def Let_def wellFormed_def singlePrimary_def list_ex_name)

lemma filter_absent: "n \<notin> set (map name cs) \<Longrightarrow> filter (\<lambda>c. name c \<noteq> n) cs = cs"
  by (induction cs) auto

lemma find_absent: "n \<notin> set (map name cs) \<Longrightarrow> find (\<lambda>c. name c = n) cs = None"
  by (induction cs) auto

lemma find_present: "n \<in> set (map name cs) \<Longrightarrow> \<exists>r. find (\<lambda>c. name c = n) cs = Some r \<and> name r = n \<and> r \<in> set cs"
  by (induction cs) auto

lemma removeContact_absent:
  assumes "n \<notin> set (map name (contacts p))"
  shows "removeContact n p = p"
proof -
  have f: "filter (\<lambda>c. name c \<noteq> n) (contacts p) = contacts p"
    using assms by (rule filter_absent)
  have g: "find (\<lambda>c. name c = n) (contacts p) = None"
    using assms by (rule find_absent)
  have h: "(case contacts p of [] \<Rightarrow> [] | c # rest \<Rightarrow> c # rest) = contacts p"
    by (simp split: list.split)
  show ?thesis
    by (simp add: removeContact_def f g h cong: list.case_cong)
qed

lemma primaryCount_filter_distinct:
  "distinct (map name cs) \<Longrightarrow> find (\<lambda>c. name c = n) cs = Some r \<Longrightarrow>
   primaryCount cs = primaryCount (filter (\<lambda>c. name c \<noteq> n) cs) + (if isPrimary r = Some True then 1 else 0)"
proof (induction cs)
  case Nil
  then show ?case by simp
next
  case (Cons c cs)
  show ?case
  proof (cases "name c = n")
    case True
    with Cons.prems have "r = c" "n \<notin> set (map name cs)" by auto
    then show ?thesis using True by (simp add: filter_absent)
  next
    case False
    with Cons show ?thesis by simp
  qed
qed

lemma removeContact_wellFormed:
  assumes "wellFormed (contacts p)"
  shows "wellFormed (contacts (removeContact n p))"
proof (cases "n \<in> set (map name (contacts p))")
  case False
  then show ?thesis using assms
    by (simp add: removeContact_absent)
next
  case True
  then obtain r where r: "find (\<lambda>c. name c = n) (contacts p) = Some r"
    using find_present by blast
  let ?f = "filter (\<lambda>c. name c \<noteq> n) (contacts p)"
  from assms have d: "distinct (map name (contacts p))" by (simp add: wellFormed_def)
  from True have ne: "contacts p \<noteq> []" by auto
  with assms have one: "primaryCount (contacts p) = 1" by (simp add: wellFormed_def singlePrimary_def)
  from primaryCount_filter_distinct[OF d r] one
  have cnt: "primaryCount ?f + (if isPrimary r = Some True then 1 else 0) = 1" by simp
  from d have df: "distinct (map name ?f)" by (rule distinct_map_filter)
  show ?thesis
  proof (cases ?f)
    case Nil
    then show ?thesis by (simp add: removeContact_def wellFormed_def singlePrimary_def)
  next
    case (Cons c rest)
    then show ?thesis using cnt df r
      by (auto simp: removeContact_def wellFormed_def singlePrimary_def split: if_splits)
  qed
qed

lemma primaryCount_setPrimary:
  "primaryCount (map (\<lambda>c. c\<lparr>isPrimary := Some (name c = n)\<rparr>) cs) = length (filter (\<lambda>c. name c = n) cs)"
  by (induction cs) simp_all

lemma distinct_count_name:
  "distinct (map name cs) \<Longrightarrow> n \<in> set (map name cs) \<Longrightarrow> length (filter (\<lambda>c. name c = n) cs) = 1"
proof (induction cs)
  case Nil then show ?case by simp
next
  case (Cons c cs)
  show ?case
  proof (cases "name c = n")
    case True
    with Cons.prems have "n \<notin> set (map name cs)" by auto
    then have "filter (\<lambda>c. name c = n) cs = []" by (induction cs) auto
    with True show ?thesis by simp
  next
    case False
    with Cons show ?thesis by auto
  qed
qed

lemma setPrimaryContact_wellFormed:
  assumes "wellFormed (contacts p)" "list_ex (\<lambda>c. name c = n) (contacts p)"
  shows "wellFormed (contacts (snd (setPrimaryContact n p)))"
  using assms
  by (auto simp: setPrimaryContact_def wellFormed_def singlePrimary_def primaryCount_setPrimary
      distinct_count_name list_ex_name)

lemma step_wellFormed:
  "wellFormed (contacts p) \<Longrightarrow> enabled p e \<Longrightarrow> wellFormed (contacts (step p e))"
proof (cases e)
  case (AddContact c)
  assume "wellFormed (contacts p)"
  then have "wellFormed (contacts (p\<lparr>currentContact := c\<rparr>))" by simp
  from addContact_wellFormed[OF this] AddContact show ?thesis by simp
next
  case (RemoveContact n)
  assume "wellFormed (contacts p)"
  with RemoveContact show ?thesis by (simp add: removeContact_wellFormed)
next
  case (SetPrimaryContact n)
  assume "wellFormed (contacts p)" "enabled p e"
  with SetPrimaryContact show ?thesis by (simp add: setPrimaryContact_wellFormed)
qed

lemma run_wellFormed:
  "wellFormed (contacts p) \<Longrightarrow> admissible p es \<Longrightarrow> wellFormed (contacts (run p es))"
  by (induction es arbitrary: p) (simp_all add: step_wellFormed)

section \<open>Names stay unique\<close>

text \<open>
  \<^verbatim>\<open>addContact\<close> refuses a name that the list has, and the other two handlers add no
  entry and change no name. Whatever the calls and their arguments, the list of the page
  never holds a name twice.
\<close>

lemma addContact_distinct_names:
  assumes "distinct (map name (contacts p))"
  shows "distinct (map name (contacts (snd (addContact p))))"
  using assms by (auto simp: addContact_def Let_def list_ex_name)

lemma removeContact_names:
  "map name (contacts (removeContact n p)) = map name (filter (\<lambda>c. name c \<noteq> n) (contacts p))"
  by (simp add: removeContact_def split: list.split)

lemma removeContact_distinct_names:
  assumes "distinct (map name (contacts p))"
  shows "distinct (map name (contacts (removeContact n p)))"
  using assms by (simp add: removeContact_names distinct_map_filter)

lemma setPrimaryContact_distinct_names:
  assumes "distinct (map name (contacts p))"
  shows "distinct (map name (contacts (snd (setPrimaryContact n p))))"
  using assms by (simp add: setPrimaryContact_def)

lemma step_distinct_names:
  "distinct (map name (contacts p)) \<Longrightarrow> distinct (map name (contacts (step p e)))"
proof (cases e)
  case (AddContact c)
  assume "distinct (map name (contacts p))"
  then have "distinct (map name (contacts (p\<lparr>currentContact := c\<rparr>)))" by simp
  from addContact_distinct_names[OF this] AddContact show ?thesis by simp
next
  case (RemoveContact n)
  assume "distinct (map name (contacts p))"
  with RemoveContact show ?thesis by (simp add: removeContact_distinct_names)
next
  case (SetPrimaryContact n)
  assume "distinct (map name (contacts p))"
  with SetPrimaryContact show ?thesis by (simp add: setPrimaryContact_distinct_names)
qed

lemma run_distinct_names:
  "distinct (map name (contacts p)) \<Longrightarrow> distinct (map name (contacts (run p es)))"
  by (induction es arbitrary: p) (simp_all add: step_distinct_names)

lemma reachable_distinct_names: "distinct (map name (contacts (run initialPage es)))"
  by (rule run_distinct_names) (simp add: initialPage_def)

lemma find_primary_distinct:
  assumes "distinct (map name cs)"
  shows "(case find (\<lambda>c. name c = n) cs of None \<Rightarrow> False | Some r \<Rightarrow> isPrimary r = Some True)
         \<longleftrightarrow> list_ex (\<lambda>r. name r = n \<and> isPrimary r = Some True) cs"
  using assms by (induction cs) (auto simp: list_ex_iff rev_image_eqI)

section \<open>The pattern accepts no white space\<close>

text \<open>
  Every atom of the pattern refuses white space, so a string that passes the test has
  none, and trimming it changes nothing. After the test, the calls of
  \<^verbatim>\<open>trim\<close> on the address in \<^verbatim>\<open>addContact\<close> are therefore the identity.
\<close>

lemma dead_not_nullable: "dead r \<Longrightarrow> \<not> nullable r"
  by (induction r) auto

lemma dead_deriv: "dead r \<Longrightarrow> dead (deriv x r)"
  by (induction r) (auto simp: dead_not_nullable)

lemma dead_no_match: "dead r \<Longrightarrow> \<not> regex_test r s"
  by (induction s arbitrary: r) (simp_all add: dead_not_nullable dead_deriv)

lemma spaceless_deriv: "spaceless r \<Longrightarrow> spaceless (deriv x r)"
  by (induction r) auto

lemma space_deriv_dead: "spaceless r \<Longrightarrow> isWhiteSpace x \<Longrightarrow> dead (deriv x r)"
  by (induction r) auto

lemma spaceless_match:
  "spaceless r \<Longrightarrow> regex_test r s \<Longrightarrow> \<forall>c \<in> set s. \<not> isWhiteSpace c"
proof (induction s arbitrary: r)
  case Nil
  then show ?case by simp
next
  case (Cons x xs)
  from Cons.prems have m: "regex_test (deriv x r) xs" by simp
  have "\<not> isWhiteSpace x"
  proof
    assume "isWhiteSpace x"
    with Cons.prems(1) have "dead (deriv x r)" by (simp add: space_deriv_dead)
    with m show False by (simp add: dead_no_match)
  qed
  moreover from Cons.IH[OF spaceless_deriv[OF Cons.prems(1)] m]
  have "\<forall>c \<in> set xs. \<not> isWhiteSpace c" .
  ultimately show ?case by simp
qed

lemma spaceless_emailRegex: "spaceless emailRegex"
  by (simp add: emailRegex_def OneOrMore_def isWhiteSpace_def)

lemma trim_spaceless: "\<forall>c \<in> set s. \<not> isWhiteSpace c \<Longrightarrow> trim s = s"
proof -
  assume a: "\<forall>c \<in> set s. \<not> isWhiteSpace c"
  have d: "dropWhile isWhiteSpace t = t" if "\<forall>c \<in> set t. \<not> isWhiteSpace c" for t
    using that by (cases t) simp_all
  from a have "dropWhile isWhiteSpace s = s" by (rule d)
  moreover from a have "dropWhile isWhiteSpace (rev s) = rev s" by (intro d) simp
  ultimately show ?thesis by (simp add: trim_def)
qed

lemma emailRegex_trim: "regex_test emailRegex s \<Longrightarrow> trim s = s"
  using spaceless_match[OF spaceless_emailRegex] trim_spaceless by blast

section \<open>Claims\<close>

subsection \<open>C1: one primary contact\<close>

text \<open>
  Claim C1 says that after any sequence of \<^verbatim>\<open>addContact\<close>, \<^verbatim>\<open>removeContact\<close> and
  \<^verbatim>\<open>setPrimary\<close> calls from the empty list, no entry is primary when the list is empty
  and exactly one is when it is not. As stated it fails: \<^verbatim>\<open>setPrimaryContact\<close> with a name
  that no entry has clears every flag. After Alice is added and \<^verbatim>\<open>Zed\<close> is made primary,
  the list has one entry and no primary.
\<close>

theorem contacts_single_primary_counterexample:
  "contacts (run initialPage [AddContact alice, SetPrimaryContact ''Zed'']) \<noteq> [] \<and>
   primaryCount (contacts (run initialPage [AddContact alice, SetPrimaryContact ''Zed''])) = 0"
  by code_simp

text \<open>
  Claim C1, amended: for every list reached from the empty list by a finite sequence of
  \<^verbatim>\<open>addContact\<close> calls (successful or failed, with any candidate), \<^verbatim>\<open>removeContact\<close>
  calls (with any name) and \<^verbatim>\<open>setPrimaryContact\<close> calls whose name is the name of an
  entry of the list at that moment, the number of entries with \<^verbatim>\<open>isPrimary = true\<close> is 0
  when the list is empty and exactly 1 when it is not.
\<close>

theorem contacts_single_primary:
  assumes "admissible initialPage es"
  shows "primaryCount (contacts (run initialPage es)) =
           (if contacts (run initialPage es) = [] then 0 else 1)"
proof -
  have "wellFormed (contacts initialPage)"
    by (simp add: initialPage_def wellFormed_def singlePrimary_def)
  from run_wellFormed[OF this assms] show ?thesis
    by (simp add: wellFormed_def singlePrimary_def)
qed

text \<open>
  An admissible sequence with a failed add in it: it ends on the list that holds Bob alone,
  promoted when Alice, the primary, was removed.
\<close>

theorem contacts_single_primary_witness:
  "admissible initialPage
     [AddContact alice, AddContact badEmail, AddContact bob, SetPrimaryContact ''Alice'',
      RemoveContact ''Alice''] \<and>
   contacts (run initialPage
     [AddContact alice, AddContact badEmail, AddContact bob, SetPrimaryContact ''Alice'',
      RemoveContact ''Alice'']) \<noteq> [] \<and>
   primaryCount (contacts (run initialPage
     [AddContact alice, AddContact badEmail, AddContact bob, SetPrimaryContact ''Alice'',
      RemoveContact ''Alice''])) = 1"
proof -
  let ?es = "[AddContact alice, AddContact badEmail, AddContact bob, SetPrimaryContact ''Alice'',
      RemoveContact ''Alice'']"
  have h: "admissible initialPage ?es" by code_simp
  have ne: "contacts (run initialPage ?es) \<noteq> []" by code_simp
  from contacts_single_primary[OF h] h ne show ?thesis by simp
qed

subsection \<open>C2: the address is tested as typed\<close>

text \<open>
  Claim C2 says that, for a candidate with all three fields non-empty after trimming and no
  duplicate, \<^verbatim>\<open>addContact\<close> fails with the invalid-email error exactly when the trimmed
  address does not match the pattern, so that an address with surrounding white space is
  accepted. The handler trims the address for the emptiness check, for the duplicate check
  and for the entry it stores, but hands the pattern the address as typed: the two
  candidates below, whose addresses match once trimmed, are refused with the invalid-email
  error.
\<close>

theorem addContact_rejects_padded_email:
  "requiredFieldsPresent pasted \<and>
   regex_test emailRegex (trim (email pasted)) \<and>
   addContact (initialPage\<lparr>currentContact := pasted\<rparr>) =
     (ToastError ''Please enter a valid email address'', initialPage\<lparr>currentContact := pasted\<rparr>) \<and>
   requiredFieldsPresent padded \<and>
   regex_test emailRegex (trim (email padded)) \<and>
   addContact (initialPage\<lparr>currentContact := padded\<rparr>) =
     (ToastError ''Please enter a valid email address'', initialPage\<lparr>currentContact := padded\<rparr>)"
  by code_simp

subsection \<open>C3: the first contact is primary\<close>

text \<open>
  Claim C3: for every valid candidate (name, address and phone number non-empty after
  trimming, trimmed address matching the pattern), adding it to the empty list succeeds
  and gives a list of one entry with \<^verbatim>\<open>isPrimary = true\<close>, whatever flag was requested.
  The handler does not do so for the candidate with the pasted address: it is valid, the
  list is empty, and the call ends with the invalid-email error and the list still empty.
  The cause is the one of C2, the pattern tested on the address as typed.
\<close>

theorem addContact_first_rejected_as_typed:
  "requiredFieldsPresent pasted \<and>
   regex_test emailRegex (trim (email pasted)) \<and>
   contacts (initialPage\<lparr>currentContact := pasted\<rparr>) = [] \<and>
   fst (addContact (initialPage\<lparr>currentContact := pasted\<rparr>)) =
     ToastError ''Please enter a valid email address'' \<and>
   contacts (snd (addContact (initialPage\<lparr>currentContact := pasted\<rparr>))) = []"
  by code_simp

text \<open>
  Where the address passes the test as typed, the handler does what the claim asks: the
  single entry is the normalised candidate, primary whatever was requested. Alice, who asks
  for \<^verbatim>\<open>isPrimary = false\<close>, is stored as primary.
\<close>

lemma addContact_first_forced_primary:
  assumes "requiredFieldsPresent (currentContact p)"
    and "regex_test emailRegex (email (currentContact p))"
    and "contacts p = []"
  shows "addContact p =
           (ToastSuccess ''Contact added successfully'',
            p\<lparr>contacts := [normalized (currentContact p) True], currentContact := emptyContact\<rparr>)"
  using assms by (simp add: addContact_def Let_def requiredFieldsPresent_def normalized_def)

lemma addContact_first_forced_primary_alice:
  "isPrimary alice = Some False \<and>
   contacts (snd (addContact (initialPage\<lparr>currentContact := alice\<rparr>))) =
     [alice\<lparr>isPrimary := Some True\<rparr>]"
  by code_simp

subsection \<open>C4: a successful add prepends\<close>

text \<open>
  Claim C4: for every list and every candidate for which \<^verbatim>\<open>addContact\<close> succeeds, the new
  list is the normalised new entry (name, address and phone number trimmed; primary when
  requested or when the list was empty) in front of the existing entries, each of them with
  \<^verbatim>\<open>isPrimary\<close> forced to false when the new entry is primary, and all of them unchanged
  otherwise.
\<close>

theorem addContact_success_prepends:
  assumes "fst (addContact p) = ToastSuccess m"
  shows "contacts (snd (addContact p)) =
           (let new = normalized (currentContact p)
                        (isPrimary (currentContact p) = Some True \<or> contacts p = [])
            in new # (if isPrimary new = Some True
                      then map (\<lambda>c. c\<lparr>isPrimary := Some False\<rparr>) (contacts p)
                      else contacts p))"
  using assms by (auto simp: addContact_def Let_def normalized_def split: if_splits)

text \<open>Carol, typed with stray blanks and asking to be primary, in front of Bob and Alice.\<close>

theorem addContact_success_prepends_witness:
  "fst (addContact (bobAlice\<lparr>currentContact := carol\<rparr>)) = ToastSuccess ''Contact added successfully'' \<and>
   contacts (snd (addContact (bobAlice\<lparr>currentContact := carol\<rparr>))) =
     [\<lparr>name = ''Carol'', email = ''carol@x.org'', phoneNumber = ''333'', isPrimary = Some True\<rparr>,
      bob\<lparr>isPrimary := Some False\<rparr>, alice]"
proof -
  let ?p = "bobAlice\<lparr>currentContact := carol\<rparr>"
  have h: "fst (addContact ?p) = ToastSuccess ''Contact added successfully''" by code_simp
  have v: "(let new = normalized (currentContact ?p)
                        (isPrimary (currentContact ?p) = Some True \<or> contacts ?p = [])
            in new # (if isPrimary new = Some True
                      then map (\<lambda>c. c\<lparr>isPrimary := Some False\<rparr>) (contacts ?p)
                      else contacts ?p)) =
     [\<lparr>name = ''Carol'', email = ''carol@x.org'', phoneNumber = ''333'', isPrimary = Some True\<rparr>,
      bob\<lparr>isPrimary := Some False\<rparr>, alice]" by code_simp
  from addContact_success_prepends[OF h] h v show ?thesis by simp
qed

subsection \<open>C5: a failed add changes nothing\<close>

text \<open>
  Claim C5: for every list and every candidate, whenever \<^verbatim>\<open>addContact\<close> fails, the contact
  list is left unchanged (the whole page is), and the error is one of the six validation
  errors: name, address or phone number required, invalid address, duplicate name,
  duplicate address.
\<close>

theorem addContact_error_unchanged:
  assumes "fst (addContact p) = ToastError e"
  shows "snd (addContact p) = p \<and> contacts (snd (addContact p)) = contacts p \<and>
         e \<in> set [''Contact name is required'', ''Contact email is required'',
                 ''Contact phone number is required'', ''Please enter a valid email address'',
                 ''Contact name already exists'', ''Contact email already exists'']"
  using assms by (auto simp: addContact_def Let_def split: if_splits)

text \<open>The address \<^verbatim>\<open>bad-email\<close> is refused and the list still holds Bob and Alice.\<close>

theorem addContact_error_unchanged_witness:
  "fst (addContact (bobAlice\<lparr>currentContact := badEmail\<rparr>)) =
     ToastError ''Please enter a valid email address'' \<and>
   contacts (snd (addContact (bobAlice\<lparr>currentContact := badEmail\<rparr>))) =
     contacts (bobAlice\<lparr>currentContact := badEmail\<rparr>)"
proof -
  have h: "fst (addContact (bobAlice\<lparr>currentContact := badEmail\<rparr>)) =
     ToastError ''Please enter a valid email address''" by code_simp
  from addContact_error_unchanged[OF h] h show ?thesis by simp
qed

subsection \<open>C6: duplicate address\<close>

text \<open>
  Claim C6 says that every candidate with non-empty trimmed fields and a well-formed address
  whose trimmed, lower-cased address is that of an existing entry fails with the
  duplicate-email error. As stated it fails: the name is compared first, so a candidate
  that repeats both the name and the address of Alice fails with the duplicate-name error.
\<close>

theorem addContact_duplicate_email_counterexample:
  "requiredFieldsPresent aliceAgain \<and> regex_test emailRegex (email aliceAgain) \<and>
   list_ex (\<lambda>c. toLowerCase (trim (email c)) = toLowerCase (trim (email aliceAgain)))
     (contacts bobAlice) \<and>
   fst (addContact (bobAlice\<lparr>currentContact := aliceAgain\<rparr>)) =
     ToastError ''Contact name already exists'' \<and>
   fst (addContact (bobAlice\<lparr>currentContact := aliceAgain\<rparr>)) \<noteq>
     ToastError ''Contact email already exists''"
  by code_simp

text \<open>
  Claim C6, amended: for every list and every candidate with non-empty trimmed fields and an
  address that passes the pattern test, if no existing entry has the candidate's trimmed
  name and some existing entry's trimmed, lower-cased address equals the candidate's trimmed,
  lower-cased address (addresses that differ only in letter case included),
  \<^verbatim>\<open>addContact\<close> fails with the duplicate-email error.
\<close>

theorem addContact_duplicate_email:
  assumes "requiredFieldsPresent (currentContact p)"
    and "regex_test emailRegex (email (currentContact p))"
    and "\<not> list_ex (\<lambda>c. name c = trim (name (currentContact p))) (contacts p)"
    and "list_ex (\<lambda>c. toLowerCase (trim (email c)) = toLowerCase (trim (email (currentContact p))))
           (contacts p)"
  shows "addContact p = (ToastError ''Contact email already exists'', p)"
  using assms by (simp add: addContact_def requiredFieldsPresent_def)

text \<open>Frank gives the address of Alice in capitals.\<close>

theorem addContact_duplicate_email_witness:
  "requiredFieldsPresent frank \<and> regex_test emailRegex (email frank) \<and>
   \<not> list_ex (\<lambda>c. name c = trim (name frank)) (contacts bobAlice) \<and>
   list_ex (\<lambda>c. toLowerCase (trim (email c)) = toLowerCase (trim (email frank)))
     (contacts bobAlice) \<and>
   fst (addContact (bobAlice\<lparr>currentContact := frank\<rparr>)) =
     ToastError ''Contact email already exists''"
proof -
  let ?p = "bobAlice\<lparr>currentContact := frank\<rparr>"
  have a: "requiredFieldsPresent (currentContact ?p)" by code_simp
  have b: "regex_test emailRegex (email (currentContact ?p))" by code_simp
  have c: "\<not> list_ex (\<lambda>c. name c = trim (name (currentContact ?p))) (contacts ?p)"
    by code_simp
  have d: "list_ex (\<lambda>c. toLowerCase (trim (email c)) =
             toLowerCase (trim (email (currentContact ?p)))) (contacts ?p)"
    by code_simp
  from addContact_duplicate_email[OF a b c d] a b c d show ?thesis by simp
qed

subsection \<open>C7: removal\<close>

text \<open>
  Claim C7: for every list and every name, \<^verbatim>\<open>removeContact\<close> removes exactly the entries
  whose name equals the given name (exact match), preserving the order of the rest; and if
  a removed entry had \<^verbatim>\<open>isPrimary = true\<close> and the resulting list is non-empty, the entry
  at the head of the resulting list has \<^verbatim>\<open>isPrimary = true\<close>. The lists are those of
  the data model, with unique names, which are the only lists the page ever holds
  (\<open>reachable_distinct_names\<close>). The result is pinned down entry by entry: it is the list
  without the entries of that name, and its head carries \<^verbatim>\<open>isPrimary = true\<close> exactly
  when a primary entry was removed, its own flag otherwise.
\<close>

theorem removeContact_filters_and_promotes:
  assumes "distinct (map name (contacts p))"
  shows "contacts (removeContact n p) =
           (case filter (\<lambda>c. name c \<noteq> n) (contacts p) of
              [] \<Rightarrow> []
            | c # rest \<Rightarrow>
                (if list_ex (\<lambda>r. name r = n \<and> isPrimary r = Some True) (contacts p)
                 then c\<lparr>isPrimary := Some True\<rparr> else c) # rest) \<and>
         map name (contacts (removeContact n p)) =
           map name (filter (\<lambda>c. name c \<noteq> n) (contacts p)) \<and>
         (r \<in> set (contacts p) \<and> name r = n \<and> isPrimary r = Some True \<and>
          contacts (removeContact n p) \<noteq> []
            \<longrightarrow> isPrimary (hd (contacts (removeContact n p))) = Some True)"
proof -
  let ?kept = "filter (\<lambda>c. name c \<noteq> n) (contacts p)"
  let ?gone = "list_ex (\<lambda>r. name r = n \<and> isPrimary r = Some True) (contacts p)"
  have shape: "contacts (removeContact n p) =
      (case ?kept of [] \<Rightarrow> [] | c # rest \<Rightarrow> (if ?gone then c\<lparr>isPrimary := Some True\<rparr> else c) # rest)"
    by (simp add: removeContact_def find_primary_distinct[OF assms] split: list.split)
  have head: "isPrimary (hd (contacts (removeContact n p))) = Some True"
    if "r \<in> set (contacts p)" "name r = n" "isPrimary r = Some True"
       "contacts (removeContact n p) \<noteq> []"
  proof -
    from that(1-3) have "?gone" by (auto simp: list_ex_iff)
    with that(4) show ?thesis by (simp add: shape split: list.splits)
  qed
  from shape head removeContact_names[of n p] show ?thesis by blast
qed

text \<open>
  The example of the specification, on the list that adding Alice and then Bob builds: Bob,
  primary, is removed and Alice is promoted.
\<close>

theorem removeContact_filters_and_promotes_witness:
  "contacts (run initialPage [AddContact alice, AddContact bob]) = [bob, alice\<lparr>isPrimary := Some False\<rparr>] \<and>
   distinct (map name (contacts (run initialPage [AddContact alice, AddContact bob]))) \<and>
   bob \<in> set (contacts (run initialPage [AddContact alice, AddContact bob])) \<and>
   name bob = ''Bob'' \<and> isPrimary bob = Some True \<and>
   contacts (removeContact ''Bob'' (run initialPage [AddContact alice, AddContact bob])) =
     [alice\<lparr>isPrimary := Some True\<rparr>] \<and>
   isPrimary (hd (contacts (removeContact ''Bob''
     (run initialPage [AddContact alice, AddContact bob])))) = Some True"
proof -
  let ?p = "run initialPage [AddContact alice, AddContact bob]"
  have l: "contacts ?p = [bob, alice\<lparr>isPrimary := Some False\<rparr>]" by code_simp
  have d: "distinct (map name (contacts ?p))" by code_simp
  have a: "bob \<in> set (contacts ?p)" by code_simp
  have b: "name bob = ''Bob''" by code_simp
  have c: "isPrimary bob = Some True" by code_simp
  have e: "contacts (removeContact ''Bob'' ?p) = [alice\<lparr>isPrimary := Some True\<rparr>]"
    by code_simp
  from removeContact_filters_and_promotes[OF d, of "''Bob''" bob] l d a b c e
  show ?thesis by simp
qed

subsection \<open>C8: choosing the primary contact\<close>

text \<open>
  Claim C8: for every list and every name, \<^verbatim>\<open>setPrimaryContact\<close> returns the list with
  \<^verbatim>\<open>isPrimary = true\<close> exactly on the entries whose name equals the given name and
  \<^verbatim>\<open>false\<close> on all others, nothing else changed; when no entry has the name, the result
  has no primary entry, and the call does not fail: it always ends with its success toast.
\<close>

theorem setPrimaryContact_flags:
  "fst (setPrimaryContact n p) = ToastSuccess ''Primary contact updated'' \<and>
   map name (contacts (snd (setPrimaryContact n p))) = map name (contacts p) \<and>
   map email (contacts (snd (setPrimaryContact n p))) = map email (contacts p) \<and>
   map phoneNumber (contacts (snd (setPrimaryContact n p))) = map phoneNumber (contacts p) \<and>
   map isPrimary (contacts (snd (setPrimaryContact n p))) =
     map (\<lambda>c. Some (name c = n)) (contacts p) \<and>
   (\<not> list_ex (\<lambda>c. name c = n) (contacts p) \<longrightarrow>
      primaryCount (contacts (snd (setPrimaryContact n p))) = 0)"
  by (auto simp: setPrimaryContact_def primaryCount_setPrimary list_ex_name o_def filter_empty_conv)

text \<open>Nobody is called Zed: Bob and Alice both end up not primary.\<close>

theorem setPrimaryContact_flags_witness:
  "\<not> list_ex (\<lambda>c. name c = ''Zed'') (contacts bobAlice) \<and>
   contacts (snd (setPrimaryContact ''Zed'' bobAlice)) \<noteq> [] \<and>
   primaryCount (contacts (snd (setPrimaryContact ''Zed'' bobAlice))) = 0"
proof -
  have h: "\<not> list_ex (\<lambda>c. name c = ''Zed'') (contacts bobAlice)" by code_simp
  have ne: "contacts (snd (setPrimaryContact ''Zed'' bobAlice)) \<noteq> []" by code_simp
  from setPrimaryContact_flags[of "''Zed''" bobAlice] h ne show ?thesis by simp
qed

subsection \<open>C9: submitting needs a contact\<close>

text \<open>
  Claim C9: \<^verbatim>\<open>handleSubmit\<close> requires a non-empty contact list. On every page with an empty
  list it fails with the toast asking for a contact and forwards nothing; whenever it
  forwards a buyer to the mutation, the list is non-empty and the buyer is the fields of
  the form together with the contact list.
\<close>

theorem handleSubmit_needs_contact:
  "handleSubmit (p\<lparr>contacts := []\<rparr>) = Inl (ToastError ''Please add at least one contact'') \<and>
   (handleSubmit p = Inr b \<longrightarrow>
     contacts p \<noteq> [] \<and> Buyer.contacts b = contacts p \<and>
     FormData.name b = FormData.name (formData p) \<and> abn b = abn (formData p) \<and>
     officeAddress b = officeAddress (formData p) \<and> FormData.email b = FormData.email (formData p) \<and>
     FormData.phoneNumber b = FormData.phoneNumber (formData p) \<and>
     accountNumber b = accountNumber (formData p))"
  by (auto simp: handleSubmit_def Let_def FormData.extend_def Buyer.fields_def split: if_splits)

text \<open>A filled form with Bob and Alice is forwarded.\<close>

theorem handleSubmit_needs_contact_witness:
  "handleSubmit bobAlice = Inr (FormData.extend acme (Buyer.fields [bob, alice])) \<and>
   contacts bobAlice \<noteq> [] \<and>
   Buyer.contacts (FormData.extend acme (Buyer.fields [bob, alice])) = contacts bobAlice"
proof -
  have h: "handleSubmit bobAlice = Inr (FormData.extend acme (Buyer.fields [bob, alice]))"
    by code_simp
  from handleSubmit_needs_contact[of bobAlice "FormData.extend acme (Buyer.fields [bob, alice])"] h
  show ?thesis by simp
qed

subsection \<open>C10: removing an absent name\<close>

text \<open>
  Claim C10: for every list and every name that is the name of no entry of the list,
  \<^verbatim>\<open>removeContact\<close> returns the list it was given, no \<^verbatim>\<open>isPrimary\<close> flag changed.
\<close>

theorem removeContact_absent_identity:
  assumes "\<not> list_ex (\<lambda>c. name c = n) (contacts p)"
  shows "removeContact n p = p"
  using assms by (simp add: removeContact_absent list_ex_name)

text \<open>Removing Zed from Bob and Alice.\<close>

theorem removeContact_absent_identity_witness:
  "\<not> list_ex (\<lambda>c. name c = ''Zed'') (contacts bobAlice) \<and>
   removeContact ''Zed'' bobAlice = bobAlice"
proof -
  have h: "\<not> list_ex (\<lambda>c. name c = ''Zed'') (contacts bobAlice)" by code_simp
  from removeContact_absent_identity[OF h] h show ?thesis by simp
qed

end
